theory Spec2Isabelle
  imports Main "HOL-Library.Sublist"
begin

chapter \<open>The embedding\<close>

section \<open>Python strings\<close>

text \<open>
  A Python \<open>str\<close> is modelled as a \<open>string\<close>, one \<open>char\<close> per code point, for the code
  points U+0000 to U+00FF. The character classes below are those of Python 3 on this
  range: \<open>str.lower\<close>, \<open>str.isspace\<close> (used by \<open>str.strip\<close> and by the regular
  expression class \<open>\s\<close>), \<open>\d\<close> and \<open>\w\<close>.
\<close>

definition code_point :: "char \<Rightarrow> nat" where
  "code_point c = of_char c"

definition lower_char :: "char \<Rightarrow> char" where
  "lower_char c =
     (let n = code_point c in
      if (65 \<le> n \<and> n \<le> 90) \<or> (192 \<le> n \<and> n \<le> 222 \<and> n \<noteq> 215)
      then char_of (n + 32) else c)"

definition lower :: "string \<Rightarrow> string" where
  "lower s = map lower_char s"

definition is_space :: "char \<Rightarrow> bool" where
  "is_space c =
     (let n = code_point c in
      (9 \<le> n \<and> n \<le> 13) \<or> (28 \<le> n \<and> n \<le> 32) \<or> n = 133 \<or> n = 160)"

definition strip :: "string \<Rightarrow> string" where
  "strip s = rev (dropWhile is_space (rev (dropWhile is_space s)))"

text \<open>\<open>str_in p s\<close> is Python's \<open>p in s\<close> on strings: \<open>p\<close> occurs in \<open>s\<close> as a
  contiguous block.\<close>

fun str_in :: "string \<Rightarrow> string \<Rightarrow> bool" where
  "str_in p [] = (p = [])"
| "str_in p (c # cs) = (prefix p (c # cs) \<or> str_in p cs)"

text \<open>\<open>s.split(sep)\<close> for a one-character separator; the result is never empty.\<close>

fun split_char :: "char \<Rightarrow> string \<Rightarrow> string list" where
  "split_char sep [] = [[]]"
| "split_char sep (c # cs) =
     (if c = sep then [] # split_char sep cs
      else (case split_char sep cs of
              w # ws \<Rightarrow> (c # w) # ws
            | [] \<Rightarrow> [[c]]))"

text \<open>\<open>sep.join(xs)\<close>.\<close>

fun join :: "string \<Rightarrow> string list \<Rightarrow> string" where
  "join sep [] = []"
| "join sep [x] = x"
| "join sep (x # y # ys) = x @ sep @ join sep (y # ys)"

section \<open>Link classifier (conf\_scrapper.py, \<open>is_valid_content_link\<close>)\<close>

definition skip_patterns :: "string list" where
  "skip_patterns =
     [''bibtex'', ''ris'', ''rdf'', ''xml'', ''endnote'', ''.nt'', ''.ttl'',
      ''google.com'', ''scholar.google'', ''semanticscholar'',
      ''citeseer'', ''pubpeer'', ''reddit.com'', ''linkedin.com'',
      ''bibsonomy'', ''bluesky'', ''twitter.com'', ''doi.org'',
      ''usenix.org'', ''acm.org'', ''ieee.org'']"

definition valid_patterns :: "string list" where
  "valid_patterns = [''/db/conf/'', ''/db/journals/'', ''contents'', ''proceedings'']"

text \<open>The loop \<open>for pattern in skip_patterns: if pattern in url.lower(): return False\<close>;
  the result is \<open>True\<close> when some pattern made the function return.\<close>

fun skip_loop :: "string list \<Rightarrow> string \<Rightarrow> bool" where
  "skip_loop [] url = False"
| "skip_loop (pattern # rest) url =
     (if str_in pattern (lower url) then True else skip_loop rest url)"

definition is_valid_content_link :: "string \<Rightarrow> bool" where
  "is_valid_content_link url =
     (if url = [] then False
      else if \<not> str_in ''dblp.org'' url then False
      else if skip_loop skip_patterns url then False
      else list_ex (\<lambda>pattern. str_in pattern url) valid_patterns)"


section \<open>Regular expressions of the scrapers\<close>

text \<open>
  Each pattern the scrapers give to \<open>re.search\<close> is written as a matcher at one start
  position: it receives the character before the position (\<open>None\<close> at the start of the
  text) and the text from the position on, and returns what the match yields.
  \<open>re_search\<close> tries the start positions from left to right, as \<open>re.search\<close> does. All the
  patterns below are deterministic: where Python would backtrack, the shorter alternative
  cannot match either, as the comments say.
\<close>

fun re_search :: "(char option \<Rightarrow> string \<Rightarrow> 'a option) \<Rightarrow> char option \<Rightarrow> string \<Rightarrow> 'a option" where
  "re_search m prev [] = m prev []"
| "re_search m prev (c # cs) =
     (case m prev (c # cs) of
        Some r \<Rightarrow> Some r
      | None \<Rightarrow> re_search m (Some c) cs)"

definition is_digit :: "char \<Rightarrow> bool" where
  "is_digit c = (let n = code_point c in 48 \<le> n \<and> n \<le> 57)"

text \<open>The class \<open>\w\<close>: the alphanumeric code points and the underscore.\<close>

definition is_word :: "char \<Rightarrow> bool" where
  "is_word c =
     (let n = code_point c in
      (48 \<le> n \<and> n \<le> 57) \<or> (65 \<le> n \<and> n \<le> 90) \<or> n = 95 \<or> (97 \<le> n \<and> n \<le> 122)
      \<or> n = 170 \<or> n = 178 \<or> n = 179 \<or> n = 181 \<or> n = 185 \<or> n = 186
      \<or> (188 \<le> n \<and> n \<le> 190) \<or> (192 \<le> n \<and> n \<le> 214) \<or> (216 \<le> n \<and> n \<le> 246)
      \<or> (248 \<le> n \<and> n \<le> 255))"

text \<open>\<open>\b\<close> next to a word character: before it, and after it.\<close>

fun boundary_before :: "char option \<Rightarrow> bool" where
  "boundary_before None = True"
| "boundary_before (Some p) = (\<not> is_word p)"

fun boundary_after :: "string \<Rightarrow> bool" where
  "boundary_after [] = True"
| "boundary_after (c # cs) = (\<not> is_word c)"

text \<open>\<open>(19|20)\<close>.\<close>

definition century :: "char \<Rightarrow> char \<Rightarrow> bool" where
  "century a b = ((a = CHR ''1'' \<and> b = CHR ''9'') \<or> (a = CHR ''2'' \<and> b = CHR ''0''))"

text \<open>\<open>\b(19|20)\d{2}\b\<close>; the result is \<open>group()\<close>.\<close>

fun year_match_at :: "char option \<Rightarrow> string \<Rightarrow> string option" where
  "year_match_at prev (a # b # c # d # rest) =
     (if boundary_before prev \<and> century a b \<and> is_digit c \<and> is_digit d \<and> boundary_after rest
      then Some [a, b, c, d] else None)"
| "year_match_at prev s = None"

text \<open>\<open>\d{2}\b\<close>.\<close>

fun two_digits_boundary :: "string \<Rightarrow> string option" where
  "two_digits_boundary (x # y # rest) =
     (if is_digit x \<and> is_digit y \<and> boundary_after rest then Some [x, y] else None)"
| "two_digits_boundary s = None"

text \<open>\<open>(19|20)?\d{2}\b\<close>: the optional group is tried first and given up when the
  rest does not match after it.\<close>

fun range_tail :: "string \<Rightarrow> string option" where
  "range_tail (a # b # rest) =
     (if century a b then
        (case two_digits_boundary rest of
           Some t \<Rightarrow> Some ([a, b] @ t)
         | None \<Rightarrow> two_digits_boundary (a # b # rest))
      else two_digits_boundary (a # b # rest))"
| "range_tail s = two_digits_boundary s"

text \<open>\<open>\b(19|20)\d{2}-(19|20)?\d{2}\b\<close>; the result is \<open>group()\<close>.\<close>

fun year_range_match_at :: "char option \<Rightarrow> string \<Rightarrow> string option" where
  "year_range_match_at prev (a # b # c # d # e # rest) =
     (if boundary_before prev \<and> century a b \<and> is_digit c \<and> is_digit d \<and> e = CHR ''-'' then
        (case range_tail rest of
           Some t \<Rightarrow> Some ([a, b, c, d, e] @ t)
         | None \<Rightarrow> None)
      else None)"
| "year_range_match_at prev s = None"

text \<open>A lower-case literal under \<open>re.IGNORECASE\<close>; the result is the text after it.\<close>

fun literal_ci :: "string \<Rightarrow> string \<Rightarrow> string option" where
  "literal_ci [] s = Some s"
| "literal_ci (p # ps) [] = None"
| "literal_ci (p # ps) (c # cs) = (if lower_char c = p then literal_ci ps cs else None)"

text \<open>\<open>\s*(\d+)\<close>: all the white space, then all the digits, at least one; the result is
  the group and the text after it. Giving back white space or digits cannot help.\<close>

definition spaces_number :: "string \<Rightarrow> (string \<times> string) option" where
  "spaces_number s =
     (let r = dropWhile is_space s; ds = takeWhile is_digit r
      in if ds = [] then None else Some (ds, dropWhile is_digit r))"

text \<open>\<open>volume\s*(\d+)\<close> with \<open>re.IGNORECASE\<close>; the result is \<open>group(1)\<close>.\<close>

definition volume_match_at :: "char option \<Rightarrow> string \<Rightarrow> string option" where
  "volume_match_at prev s =
     (case literal_ci ''volume'' s of
        None \<Rightarrow> None
      | Some r \<Rightarrow> map_option fst (spaces_number r))"

text \<open>\<open>vol\.?\s*(\d+)\<close> with \<open>re.IGNORECASE\<close>; the result is \<open>group(1)\<close>. When the dot
  is there and the rest fails after it, it fails without it too: a dot is neither white
  space nor a digit.\<close>

definition vol_match_at :: "char option \<Rightarrow> string \<Rightarrow> string option" where
  "vol_match_at prev s =
     (case literal_ci ''vol'' s of
        None \<Rightarrow> None
      | Some r \<Rightarrow>
          map_option fst
            (spaces_number (case r of c # r' \<Rightarrow> if c = CHR ''.'' then r' else r | [] \<Rightarrow> r)))"

text \<open>\<open>\d+(?:-\d+)?\<close>.\<close>

definition page_range :: "string \<Rightarrow> string option" where
  "page_range s =
     (let ds = takeWhile is_digit s; r = dropWhile is_digit s in
      if ds = [] then None
      else (case r of
              c # r' \<Rightarrow>
                if c = CHR ''-'' \<and> takeWhile is_digit r' \<noteq> []
                then Some (ds @ [c] @ takeWhile is_digit r')
                else Some ds
            | [] \<Rightarrow> Some ds))"

text \<open>\<open>pp\.\s*(\d+(?:-\d+)?)\<close> with \<open>re.IGNORECASE\<close>; the result is \<open>group(1)\<close>.\<close>

definition pp_match_at :: "char option \<Rightarrow> string \<Rightarrow> string option" where
  "pp_match_at prev s =
     (case literal_ci ''pp.'' s of
        None \<Rightarrow> None
      | Some r \<Rightarrow> page_range (dropWhile is_space r))"

text \<open>\<open>pages?\s+(\d+(?:-\d+)?)\<close> with \<open>re.IGNORECASE\<close>; the result is \<open>group(1)\<close>.\<close>

definition pages_match_at :: "char option \<Rightarrow> string \<Rightarrow> string option" where
  "pages_match_at prev s =
     (case literal_ci ''page'' s of
        None \<Rightarrow> None
      | Some r \<Rightarrow>
          (let r1 = (case r of c # r' \<Rightarrow> if lower_char c = CHR ''s'' then r' else r | [] \<Rightarrow> r)
           in if takeWhile is_space r1 = [] then None
              else page_range (dropWhile is_space r1)))"

text \<open>The classes \<open>[A-Z]\<close> and \<open>[A-Za-z\s]\<close>.\<close>

definition is_upper_az :: "char \<Rightarrow> bool" where
  "is_upper_az c = (let n = code_point c in 65 \<le> n \<and> n \<le> 90)"

definition is_letter_or_space :: "char \<Rightarrow> bool" where
  "is_letter_or_space c =
     (let n = code_point c in (65 \<le> n \<and> n \<le> 90) \<or> (97 \<le> n \<and> n \<le> 122) \<or> is_space c)"

definition location_countries :: "string list" where
  "location_countries =
     [''USA'', ''UK'', ''Germany'', ''France'', ''Italy'', ''Spain'', ''Canada'', ''Australia'']"

text \<open>\<open>([A-Za-z\s]+),\s*([A-Z]{2,3}),\s*(USA|UK|Germany|France|Italy|Spain|Canada|Australia)\<close>;
  the result is \<open>group()\<close>. Each run is the longest one: after a shorter run the next
  character is of the run's class and not the comma the pattern asks for.\<close>

definition location_state_match_at :: "char option \<Rightarrow> string \<Rightarrow> string option" where
  "location_state_match_at prev s =
     (let city = takeWhile is_letter_or_space s in
      if city = [] then None
      else (case dropWhile is_letter_or_space s of
              c1 # s1 \<Rightarrow>
                if c1 \<noteq> CHR '','' then None
                else
                  (let w1 = takeWhile is_space s1;
                       s2 = dropWhile is_space s1;
                       region = take 3 (takeWhile is_upper_az s2)
                   in if length region < 2 then None
                      else (case drop (length region) s2 of
                              c2 # s3 \<Rightarrow>
                                if c2 \<noteq> CHR '','' then None
                                else
                                  (let w2 = takeWhile is_space s3 in
                                   case find (\<lambda>country. prefix country (dropWhile is_space s3))
                                          location_countries of
                                     Some country \<Rightarrow>
                                       Some (city @ [c1] @ w1 @ region @ [c2] @ w2 @ country)
                                   | None \<Rightarrow> None)
                            | [] \<Rightarrow> None))
            | [] \<Rightarrow> None))"

text \<open>\<open>([A-Za-z\s]+),\s*([A-Za-z\s]+),\s*\d{4}\<close>; the result is \<open>group()\<close>. The white
  space after the first comma belongs to the class of the second group as well, so the
  two together are the longest run of that class, which must not be empty.\<close>

definition location_year_match_at :: "char option \<Rightarrow> string \<Rightarrow> string option" where
  "location_year_match_at prev s =
     (let city = takeWhile is_letter_or_space s in
      if city = [] then None
      else (case dropWhile is_letter_or_space s of
              c1 # s1 \<Rightarrow>
                if c1 \<noteq> CHR '','' then None
                else
                  (let region = takeWhile is_letter_or_space s1 in
                   if region = [] then None
                   else (case dropWhile is_letter_or_space s1 of
                           c2 # s2 \<Rightarrow>
                             if c2 \<noteq> CHR '','' then None
                             else
                               (let w = takeWhile is_space s2;
                                    ds = take 4 (dropWhile is_space s2)
                                in if length ds = 4 \<and> list_all is_digit ds
                                   then Some (city @ [c1] @ region @ [c2] @ w @ ds)
                                   else None)
                         | [] \<Rightarrow> None))
            | [] \<Rightarrow> None))"

section \<open>Record extractor (conf\_scrapper.py)\<close>

subsection \<open>The page as the browser reports it\<close>

text \<open>
  A DOM node is modelled by what the queries of the scraper return on it. A query that
  raises (no such element, or any other driver error) is \<open>Inl\<close> of the error; every
  handler around these queries is a bare \<open>except\<close>, so the kind of error is never
  looked at.
\<close>

datatype dom_error = NoSuchElementException | WebDriverException

type_synonym 'a dom = "dom_error + 'a"

record author_element =
  name_element :: "(string option \<times> string) dom"
    \<comment> \<open>\<open>find_element("span[itemprop='name']")\<close>: its \<open>title\<close> attribute and its text\<close>
  author_text :: string
    \<comment> \<open>\<open>auth_elem.text\<close>\<close>

record element =
  class_attribute :: "string option dom"
    \<comment> \<open>\<open>get_attribute("class")\<close>\<close>
  author_elements :: "author_element list dom"
    \<comment> \<open>\<open>find_elements("span[itemprop='author']")\<close>\<close>
  span_title :: "string dom"
    \<comment> \<open>the text of \<open>find_element("span.title")\<close>\<close>
  headline_title :: "string dom"
    \<comment> \<open>the text of \<open>find_element("[itemprop='headline'] span.title")\<close>\<close>
  cite_text :: "string dom"
    \<comment> \<open>the text of \<open>find_element("cite")\<close>\<close>
  rec_link :: "string dom"
    \<comment> \<open>the \<open>href\<close> of \<open>find_element("a[href*='/rec/']")\<close>\<close>
  anchor_hrefs :: "string option list dom"
    \<comment> \<open>the \<open>href\<close> attributes of \<open>find_elements(By.TAG_NAME, "a")\<close>\<close>
  element_text :: "string dom"
    \<comment> \<open>\<open>element.text\<close>\<close>

text \<open>The dictionary \<open>paper_data\<close>, with its eleven keys.\<close>

record paper =
  name :: string
  authors :: string
  conference_href :: string
  paper_href :: string
  year :: string
  isbn :: string
  pages :: string
  conference_location :: string
  created_at :: string
  conference_processed :: string
  edition_name :: string

subsection \<open>\<open>is_paper_entry\<close>\<close>

definition paper_indicators :: "string list" where
  "paper_indicators = [''inproceedings'', ''article'', ''incollection'']"

definition is_paper_entry :: "element \<Rightarrow> bool" where
  "is_paper_entry e =
     (case class_attribute e of
        Inl err \<Rightarrow> False
      | Inr attr \<Rightarrow>
          (let classes = (case attr of None \<Rightarrow> [] | Some c \<Rightarrow> c) in
           if str_in ''editor'' classes \<or> str_in ''toc'' classes then False
           else if list_ex (\<lambda>indicator. str_in indicator classes) paper_indicators then True
           else if (case author_elements e of Inr found \<Rightarrow> length found > 0 | Inl err \<Rightarrow> False)
           then True
           else if (case span_title e of Inr t \<Rightarrow> length (strip t) > 10 | Inl err \<Rightarrow> False)
           then True
           else False))"

subsection \<open>\<open>extract_paper_data\<close>\<close>

definition rstrip_dots :: "string \<Rightarrow> string" where
  "rstrip_dots s = rev (dropWhile (\<lambda>c. c = CHR ''.'') (rev s))"

text \<open>The loop over the lines of the citation block: the first line longer than 20
  characters that does not start with \<open>http\<close>; the name stays empty when there is none.\<close>

fun cite_lines_loop :: "string list \<Rightarrow> string" where
  "cite_lines_loop [] = []"
| "cite_lines_loop (line # rest) =
     (if length line > 20 \<and> \<not> prefix ''http'' line then rstrip_dots (strip line)
      else cite_lines_loop rest)"

definition extract_name :: "element \<Rightarrow> string" where
  "extract_name e =
     (case span_title e of
        Inr t \<Rightarrow> strip t
      | Inl err \<Rightarrow>
          (case headline_title e of
             Inr t \<Rightarrow> strip t
           | Inl err \<Rightarrow>
               (case cite_text e of
                  Inr t \<Rightarrow> cite_lines_loop (split_char (CHR 0x0A) (strip t))
                | Inl err \<Rightarrow> [])))"

text \<open>One author element: the nested name element's \<open>title\<close> attribute, or its text
  when the attribute is missing or empty; the element's own text when there is no nested
  name element. The result is what is appended to \<open>authors\<close>, if anything.\<close>

definition author_name_of :: "author_element \<Rightarrow> string option" where
  "author_name_of a =
     (case name_element a of
        Inr (title_attr, name_text) \<Rightarrow>
          (let author_name = (case title_attr of
                                None \<Rightarrow> name_text
                              | Some t \<Rightarrow> if t = [] then name_text else t)
           in if author_name \<noteq> [] \<and> strip author_name \<noteq> [] then Some (strip author_name)
              else None)
      | Inl err \<Rightarrow>
          (let author_name = strip (author_text a)
           in if author_name \<noteq> [] then Some author_name else None))"

fun authors_loop :: "author_element list \<Rightarrow> string list" where
  "authors_loop [] = []"
| "authors_loop (a # rest) =
     (case author_name_of a of
        Some n \<Rightarrow> n # authors_loop rest
      | None \<Rightarrow> authors_loop rest)"

definition extract_authors :: "element \<Rightarrow> string" where
  "extract_authors e =
     (let found = (case author_elements e of Inr elems \<Rightarrow> authors_loop elems | Inl err \<Rightarrow> [])
      in if found \<noteq> [] then join '', '' found else [])"

fun anchors_loop :: "string option list \<Rightarrow> string" where
  "anchors_loop [] = []"
| "anchors_loop (href # rest) =
     (case href of
        Some h \<Rightarrow> if h \<noteq> [] \<and> str_in ''/rec/'' h then h else anchors_loop rest
      | None \<Rightarrow> anchors_loop rest)"

definition extract_paper_href :: "element \<Rightarrow> string" where
  "extract_paper_href e =
     (case rec_link e of
        Inr h \<Rightarrow> h
      | Inl err \<Rightarrow> (case anchor_hrefs e of Inr hs \<Rightarrow> anchors_loop hs | Inl err \<Rightarrow> []))"

definition extract_year :: "element \<Rightarrow> string" where
  "extract_year e =
     (case element_text e of
        Inr t \<Rightarrow> (case re_search year_match_at None t of Some y \<Rightarrow> y | None \<Rightarrow> [])
      | Inl err \<Rightarrow> [])"

definition extract_pages :: "element \<Rightarrow> string" where
  "extract_pages e =
     (case element_text e of
        Inr t \<Rightarrow>
          (case re_search pp_match_at None t of
             Some p \<Rightarrow> p
           | None \<Rightarrow> (case re_search pages_match_at None t of Some p \<Rightarrow> p | None \<Rightarrow> []))
      | Inl err \<Rightarrow> [])"

definition extract_location :: "element \<Rightarrow> string" where
  "extract_location e =
     (case element_text e of
        Inr t \<Rightarrow>
          (case re_search location_state_match_at None t of
             Some l \<Rightarrow> strip l
           | None \<Rightarrow>
               (case re_search location_year_match_at None t of
                  Some l \<Rightarrow> strip l
                | None \<Rightarrow> []))
      | Inl err \<Rightarrow> [])"

text \<open>Every query of \<open>extract_paper_data\<close> has a handler of its own, so the outer handler
  (which returns \<open>None\<close>) is never reached and the dictionary is always returned.\<close>

definition extract_paper_data :: "element \<Rightarrow> string \<Rightarrow> string \<Rightarrow> paper option" where
  "extract_paper_data e conference_name page_url =
     Some \<lparr> name = extract_name e,
            authors = extract_authors e,
            conference_href = page_url,
            paper_href = extract_paper_href e,
            year = extract_year e,
            isbn = [],
            pages = extract_pages e,
            conference_location = extract_location e,
            created_at = [],
            conference_processed = conference_name,
            edition_name = [] \<rparr>"

subsection \<open>\<open>insert_conf_paper\<close> and \<open>scrape_papers_from_content_page\<close>\<close>

text \<open>
  The persistence sink is the table \<open>conf_papers\<close>, modelled as the list of the rows
  handed to it, in order. \<open>insert_conf_paper\<close> stamps a record that has no creation
  time with the current time; it writes the stamp into the dictionary it was given, which
  is the one the caller has just appended to \<open>papers\<close>, so the caller's record carries the
  stamp too. The clock is a parameter: \<open>now n\<close> is the time read when the table has \<open>n\<close>
  rows. The database file is taken to be there and the insertion to succeed; otherwise
  \<open>insert_conf_paper\<close> prints the error and the loop goes on.
\<close>

definition insert_conf_paper :: "(nat \<Rightarrow> string) \<Rightarrow> paper \<Rightarrow> paper list \<Rightarrow> paper \<times> paper list" where
  "insert_conf_paper now paper_dict table =
     (let stamped = (if created_at paper_dict = []
                     then paper_dict\<lparr>created_at := now (length table)\<rparr>
                     else paper_dict)
      in (stamped, table @ [stamped]))"

text \<open>The loop over the entries of the page: the state is the list \<open>papers\<close> and the
  table.\<close>

fun process_elements ::
  "(nat \<Rightarrow> string) \<Rightarrow> string \<Rightarrow> string \<Rightarrow> element list \<Rightarrow> paper list \<times> paper list
     \<Rightarrow> paper list \<times> paper list" where
  "process_elements now conference_name content_url [] (papers, table) = (papers, table)"
| "process_elements now conference_name content_url (e # rest) (papers, table) =
     (if is_paper_entry e then
        (case extract_paper_data e conference_name content_url of
           Some paper_data \<Rightarrow>
             if strip (name paper_data) \<noteq> [] then
               (let (stamped, table') = insert_conf_paper now paper_data table
                in process_elements now conference_name content_url rest
                     (papers @ [stamped], table'))
             else process_elements now conference_name content_url rest (papers, table)
         | None \<Rightarrow> process_elements now conference_name content_url rest (papers, table))
      else process_elements now conference_name content_url rest (papers, table))"

text \<open>The key of the record-level deduplication, and its loop: the state is the set
  \<open>seen_papers\<close> and the list \<open>unique_papers\<close>.\<close>

definition paper_key :: "paper \<Rightarrow> string \<times> string" where
  "paper_key p = (strip (lower (name p)), strip (lower (authors p)))"

fun dedup_loop :: "paper list \<Rightarrow> (string \<times> string) set \<Rightarrow> paper list \<Rightarrow> paper list" where
  "dedup_loop [] seen_papers unique_papers = unique_papers"
| "dedup_loop (p # rest) seen_papers unique_papers =
     (if paper_key p \<notin> seen_papers \<and> strip (name p) \<noteq> []
      then dedup_loop rest (insert (paper_key p) seen_papers) (unique_papers @ [p])
      else dedup_loop rest seen_papers unique_papers)"

definition remove_duplicates :: "paper list \<Rightarrow> paper list" where
  "remove_duplicates papers = dedup_loop papers {} []"

text \<open>The content page: whether it loaded, and what the three selectors find on it.\<close>

record content_page =
  inproceedings_entries :: "element list"
  article_entries :: "element list"
  all_entries :: "element list"

definition paper_elements_of :: "content_page \<Rightarrow> element list" where
  "paper_elements_of pg =
     (if inproceedings_entries pg \<noteq> [] then inproceedings_entries pg
      else if article_entries pg \<noteq> [] then article_entries pg
      else all_entries pg)"

text \<open>The result is the list the function returns and the table after the call. A page
  that does not load (\<open>None\<close>) gives the empty list and leaves the table as it was.\<close>

definition scrape_papers_from_content_page ::
  "(nat \<Rightarrow> string) \<Rightarrow> content_page option \<Rightarrow> string \<Rightarrow> string \<Rightarrow> paper list
     \<Rightarrow> paper list \<times> paper list" where
  "scrape_papers_from_content_page now loaded content_url conference_name table =
     (case loaded of
        None \<Rightarrow> ([], table)
      | Some pg \<Rightarrow>
          (let (papers, table') =
                 process_elements now conference_name content_url (paper_elements_of pg) ([], table)
           in (remove_duplicates papers, table')))"

section \<open>Journal scraper (dblp\_journals\_scrapper.py)\<close>

text \<open>The two searches for a year in \<open>extract_volume_info\<close>, under the names the source
  gives their results.\<close>

definition year_match :: "string \<Rightarrow> string option" where
  "year_match volume_text = re_search year_match_at None volume_text"

definition year_range_match :: "string \<Rightarrow> string option" where
  "year_range_match volume_text = re_search year_range_match_at None volume_text"

text \<open>\<open>extract_volume_info\<close> returns a dictionary that always has the keys \<open>volume\<close> and
  \<open>year\<close>; a value is the empty string when nothing matched. (\<open>split\<close> never returns an
  empty list, so the index \<open>[0]\<close> cannot fail.)\<close>

definition extract_volume_info :: "string \<Rightarrow> (string \<rightharpoonup> string)" where
  "extract_volume_info volume_text =
     (let volume =
            (case re_search volume_match_at None volume_text of
               Some v \<Rightarrow> v
             | None \<Rightarrow> (case re_search vol_match_at None volume_text of Some v \<Rightarrow> v | None \<Rightarrow> []));
          year =
            (case year_match volume_text of
               Some y \<Rightarrow> y
             | None \<Rightarrow>
                 (case year_range_match volume_text of
                    Some r \<Rightarrow> (case split_char (CHR ''-'') r of y # ys \<Rightarrow> y | [] \<Rightarrow> [])
                  | None \<Rightarrow> []))
      in [''volume'' \<mapsto> volume, ''year'' \<mapsto> year])"

text \<open>The entries \<open>year\<close> and \<open>volume\<close> of the dictionary that \<open>extract_journal_paper_info\<close>
  builds, from its argument \<open>volume_info\<close> (\<open>None\<close> by default) and the text of the record's
  node. The test \<open>volume_info and 'year' in volume_info\<close> holds exactly when the dictionary
  is there and has the key. The other entries of the dictionary do not enter these two.\<close>

definition journal_paper_year :: "(string \<rightharpoonup> string) option \<Rightarrow> string \<Rightarrow> string" where
  "journal_paper_year volume_info paper_text =
     (let from_text = (case re_search year_match_at None paper_text of Some y \<Rightarrow> y | None \<Rightarrow> [])
      in case volume_info of
           Some vi \<Rightarrow> (case vi ''year'' of Some y \<Rightarrow> y | None \<Rightarrow> from_text)
         | None \<Rightarrow> from_text)"

definition journal_paper_volume :: "(string \<rightharpoonup> string) option \<Rightarrow> string \<Rightarrow> string" where
  "journal_paper_volume volume_info paper_text =
     (let from_text = (case re_search vol_match_at None paper_text of Some v \<Rightarrow> v | None \<Rightarrow> [])
      in case volume_info of
           Some vi \<Rightarrow> (case vi ''volume'' of Some v \<Rightarrow> v | None \<Rightarrow> from_text)
         | None \<Rightarrow> from_text)"

section \<open>Country resolver (get\_countries\_conf\_updated.py)\<close>

subsection \<open>The affiliation keyword table\<close>




subsection \<open>The two lookup services\<close>














subsection \<open>Tier 1: \<open>get_country_from_openalex\<close>\<close>




subsection \<open>Tier 2: \<open>get_semantic_scholar_paper\<close> and \<open>extract_country_from_semantic_scholar\<close>\<close>











subsection \<open>\<open>get_author_country\<close>\<close>


section \<open>The statements of the specification, in its words\<close>

text \<open>The link classifier as the specification words it: the domain is in the URL, no
  denylist substring is in the URL, and some allowlist pattern is in the URL.\<close>

definition is_content_link_spec :: "string \<Rightarrow> bool" where
  "is_content_link_spec url =
     (str_in ''dblp.org'' url
      \<and> \<not> list_ex (\<lambda>pattern. str_in pattern url) skip_patterns
      \<and> list_ex (\<lambda>pattern. str_in pattern url) valid_patterns)"

text \<open>The four tests of the record classifier, as the specification names them: the
  class attribute (empty when the node has none) has an editorial or table-of-contents
  tag; it has a publication-type tag; the node has an author-marked sub-element; the
  text of its title sub-element, trimmed as the code reads it, is longer than 10
  characters.\<close>

definition classes_of :: "element \<Rightarrow> string" where
  "classes_of e = (case class_attribute e of Inr (Some c) \<Rightarrow> c | _ \<Rightarrow> [])"

definition editorial :: "element \<Rightarrow> bool" where
  "editorial e = (str_in ''editor'' (classes_of e) \<or> str_in ''toc'' (classes_of e))"

definition publication_type :: "element \<Rightarrow> bool" where
  "publication_type e =
     (str_in ''inproceedings'' (classes_of e) \<or> str_in ''article'' (classes_of e)
      \<or> str_in ''incollection'' (classes_of e))"

definition has_author :: "element \<Rightarrow> bool" where
  "has_author e = (case author_elements e of Inr (a # as) \<Rightarrow> True | _ \<Rightarrow> False)"

definition long_title :: "element \<Rightarrow> bool" where
  "long_title e = (case span_title e of Inr t \<Rightarrow> 10 < length (strip t) | Inl err \<Rightarrow> False)"

text \<open>Keeping the first occurrence of each key, in first-seen order: the head is kept,
  and every later element with the head's key is dropped.\<close>

fun first_occurrences :: "('a \<Rightarrow> 'k) \<Rightarrow> 'a list \<Rightarrow> 'a list" where
  "first_occurrences key [] = []"
| "first_occurrences key (x # xs) =
     x # first_occurrences key (filter (\<lambda>y. key y \<noteq> key x) xs)"

definition named :: "paper \<Rightarrow> bool" where
  "named p = (strip (name p) \<noteq> [])"

text \<open>The year that the range-parsing path of \<open>extract_volume_info\<close> yields: the first
  year of the hyphenated range, when there is no exact match and the range pattern
  matches; \<open>None\<close> when that path is not the one that yields the year.\<close>

definition year_from_range_path :: "string \<Rightarrow> string option" where
  "year_from_range_path volume_text =
     (case year_match volume_text of
        Some y \<Rightarrow> None
      | None \<Rightarrow>
          (case year_range_match volume_text of
             Some r \<Rightarrow> (case split_char (CHR ''-'') r of y # ys \<Rightarrow> Some y | [] \<Rightarrow> None)
           | None \<Rightarrow> None))"

text \<open>No match of a pattern begins at a position of \<open>pre\<close>, in the text \<open>pre @ rest\<close> that
  follows the character \<open>prev\<close>; and the character before what follows \<open>pre\<close>.\<close>

fun no_match_before ::
  "(char option \<Rightarrow> string \<Rightarrow> 'a option) \<Rightarrow> char option \<Rightarrow> string \<Rightarrow> string \<Rightarrow> bool" where
  "no_match_before m prev [] rest = True"
| "no_match_before m prev (c # cs) rest =
     (m prev (c # cs @ rest) = None \<and> no_match_before m (Some c) cs rest)"

definition char_before :: "string \<Rightarrow> char option" where
  "char_before pre = (if pre = [] then None else Some (last pre))"











section \<open>Sample inputs\<close>

text \<open>A node with the given class attribute, author elements and title element, and
  nothing else.\<close>

definition node :: "string \<Rightarrow> author_element list \<Rightarrow> string dom \<Rightarrow> element" where
  "node classes found title =
     \<lparr> class_attribute = Inr (Some classes), author_elements = Inr found,
       span_title = title, headline_title = Inl NoSuchElementException,
       cite_text = Inl NoSuchElementException, rec_link = Inl NoSuchElementException,
       anchor_hrefs = Inr [], element_text = Inr [] \<rparr>"

definition jane_doe :: author_element where
  "jane_doe = \<lparr> name_element = Inr (Some ''Jane Doe'', ''Jane Doe''), author_text = ''Jane Doe'' \<rparr>"

text \<open>A record with the given title, authors and page URL.\<close>

definition record_of :: "string \<Rightarrow> string \<Rightarrow> string \<Rightarrow> paper" where
  "record_of title by url =
     \<lparr> name = title, authors = by, conference_href = url, paper_href = [], year = [],
       isbn = [], pages = [], conference_location = [], created_at = [],
       conference_processed = ''X'', edition_name = [] \<rparr>"

text \<open>A content page that lists the same paper twice.\<close>

definition twice_listed :: content_page where
  "twice_listed =
     \<lparr> inproceedings_entries =
         [node ''entry inproceedings'' [jane_doe] (Inr ''A Study of X''),
          node ''entry inproceedings'' [jane_doe] (Inr ''A Study of X'')],
       article_entries = [], all_entries = [] \<rparr>"

definition fixed_clock :: "nat \<Rightarrow> string" where
  "fixed_clock n = ''2025-01-01T00:00:00''"









chapter \<open>Properties\<close>

section \<open>Strings\<close>

lemma str_in_sublist: "str_in p s = sublist p s"
  by (induction s) (simp_all add: sublist_Cons_right)

lemma str_in_iff: "str_in p s \<longleftrightarrow> (\<exists>a b. s = a @ p @ b)"
  by (simp add: str_in_sublist sublist_def)

lemma str_in_nonempty: "str_in (c # p) s \<Longrightarrow> s \<noteq> []"
  by (cases s) simp_all

lemma lower_append: "lower (a @ b) = lower a @ lower b"
  by (simp add: lower_def)

lemma str_in_lower:
  assumes "lower p = p" and "str_in p s"
  shows "str_in p (lower s)"
proof -
  from assms(2) obtain a b where "s = a @ p @ b"
    by (auto simp: str_in_iff)
  then have "lower s = lower a @ p @ lower b"
    by (simp add: lower_append assms(1))
  then show ?thesis
    unfolding str_in_iff by blast
qed

section \<open>Link classifier\<close>

lemma skip_loop_iff:
  "skip_loop ps url = list_ex (\<lambda>pattern. str_in pattern (lower url)) ps"
  by (induction ps) simp_all

lemma skip_patterns_lower: "list_all (\<lambda>p. lower p = p) skip_patterns"
  by code_simp

lemma is_valid_content_link_iff:
  "is_valid_content_link url \<longleftrightarrow>
     str_in ''dblp.org'' url
     \<and> \<not> list_ex (\<lambda>pattern. str_in pattern (lower url)) skip_patterns
     \<and> list_ex (\<lambda>pattern. str_in pattern url) valid_patterns"
  unfolding is_valid_content_link_def skip_loop_iff
  by (auto dest: str_in_nonempty)

lemma denylisted_rejected:
  assumes "pattern \<in> set skip_patterns" and "str_in pattern url"
  shows "\<not> is_valid_content_link url"
proof -
  from assms(1) skip_patterns_lower have "lower pattern = pattern"
    by (simp add: list_all_iff)
  then have "str_in pattern (lower url)"
    using assms(2) by (rule str_in_lower)
  with assms(1) have "list_ex (\<lambda>p. str_in p (lower url)) skip_patterns"
    by (auto simp: list_ex_iff)
  then show ?thesis
    by (simp add: is_valid_content_link_iff)
qed

text \<open>
  C1, as stated: \<open>is_valid_content_link\<close> is true exactly when the URL contains the
  domain, none of the denylist substrings and some allowlist pattern. This fails: the
  denylist is matched against the lower-cased URL, so a URL that has a denylist word in
  upper case contains no denylist substring and is rejected all the same.
\<close>

theorem is_valid_content_link_spec_counterexample:
  "is_valid_content_link ''https://dblp.org/db/conf/XML2004.html''
     \<noteq> is_content_link_spec ''https://dblp.org/db/conf/XML2004.html''"
  by code_simp

text \<open>
  C1, amended: \<open>is_valid_content_link url\<close> is true exactly when \<open>url\<close> contains
  \<open>dblp.org\<close>, the lower-cased \<open>url\<close> contains none of the denylist substrings, and \<open>url\<close>
  contains one of the four allowlist patterns (the three tests are made in this order,
  each rejecting at once); and every URL that contains a denylist
  substring (the citation aggregators \<open>semanticscholar\<close> and \<open>citeseer\<close> among them) is
  rejected whatever else it contains.
\<close>

theorem is_valid_content_link_lowered_denylist:
  "(is_valid_content_link url \<longleftrightarrow>
      str_in ''dblp.org'' url
      \<and> \<not> list_ex (\<lambda>pattern. str_in pattern (lower url)) skip_patterns
      \<and> list_ex (\<lambda>pattern. str_in pattern url) valid_patterns)
   \<and> (\<forall>pattern \<in> set skip_patterns. str_in pattern url \<longrightarrow> \<not> is_valid_content_link url)
   \<and> ''semanticscholar'' \<in> set skip_patterns \<and> ''citeseer'' \<in> set skip_patterns"
proof (intro conjI)
  show "is_valid_content_link url \<longleftrightarrow>
      str_in ''dblp.org'' url
      \<and> \<not> list_ex (\<lambda>pattern. str_in pattern (lower url)) skip_patterns
      \<and> list_ex (\<lambda>pattern. str_in pattern url) valid_patterns"
    by (rule is_valid_content_link_iff)
  show "\<forall>pattern \<in> set skip_patterns. str_in pattern url \<longrightarrow> \<not> is_valid_content_link url"
    using denylisted_rejected by blast
  show "''semanticscholar'' \<in> set skip_patterns"
    by (simp add: skip_patterns_def)
  show "''citeseer'' \<in> set skip_patterns"
    by (simp add: skip_patterns_def)
qed

theorem is_valid_content_link_lowered_denylist_witness:
  "str_in ''citeseer'' ''https://dblp.org/db/conf/citeseer/contents.html''
   \<and> \<not> is_valid_content_link ''https://dblp.org/db/conf/citeseer/contents.html''
   \<and> is_valid_content_link ''https://dblp.org/db/conf/sigmod/sigmod2004.html''"
proof -
  have a: "str_in ''citeseer'' ''https://dblp.org/db/conf/citeseer/contents.html''"
    by code_simp
  have b: "''citeseer'' \<in> set skip_patterns"
    by (simp add: skip_patterns_def)
  have c: "\<not> is_valid_content_link ''https://dblp.org/db/conf/citeseer/contents.html''"
    using is_valid_content_link_lowered_denylist
            [of "''https://dblp.org/db/conf/citeseer/contents.html''"] a b
    by blast
  have d: "is_valid_content_link ''https://dblp.org/db/conf/sigmod/sigmod2004.html''"
    by code_simp
  from a c d show ?thesis by simp
qed

section \<open>Record classifier\<close>

lemma is_paper_entry_cascade_eq:
  assumes "class_attribute e = Inr attr"
  shows "is_paper_entry e =
     (if editorial e then False
      else if publication_type e then True
      else if has_author e then True
      else if long_title e then True
      else False)"
  using assms
  by (auto simp: is_paper_entry_def editorial_def publication_type_def has_author_def
        long_title_def classes_of_def paper_indicators_def
      split: option.splits sum.splits list.splits)

text \<open>
  C2: for a node whose class attribute can be read, \<open>is_paper_entry\<close> follows the five
  rules in order, the first that applies deciding: (1) an editorial or table-of-contents
  tag rejects, whatever else the node has; (2) otherwise a publication-type tag accepts;
  (3) otherwise an author-marked sub-element accepts; (4) otherwise a title longer than
  10 characters accepts; (5) otherwise the node is rejected. In particular a node with the
  title \<open>A Study of X\<close>, no author element and no tag is accepted, by rule (4).
\<close>

theorem is_paper_entry_cascade:
  assumes "class_attribute e = Inr attr"
  shows "(editorial e \<longrightarrow> \<not> is_paper_entry e)
       \<and> (\<not> editorial e \<and> publication_type e \<longrightarrow> is_paper_entry e)
       \<and> (\<not> editorial e \<and> \<not> publication_type e \<and> has_author e \<longrightarrow> is_paper_entry e)
       \<and> (\<not> editorial e \<and> \<not> publication_type e \<and> \<not> has_author e \<and> long_title e
            \<longrightarrow> is_paper_entry e)
       \<and> (\<not> editorial e \<and> \<not> publication_type e \<and> \<not> has_author e \<and> \<not> long_title e
            \<longrightarrow> \<not> is_paper_entry e)
       \<and> (\<not> editorial e \<and> \<not> publication_type e \<and> author_elements e = Inr []
            \<and> span_title e = Inr ''A Study of X'' \<longrightarrow> \<not> has_author e \<and> long_title e \<and> is_paper_entry e)"
proof -
  have t: "10 < length (strip ''A Study of X'')"
    by code_simp
  have "author_elements e = Inr [] \<Longrightarrow> \<not> has_author e"
    by (simp add: has_author_def)
  moreover have "span_title e = Inr ''A Study of X'' \<Longrightarrow> long_title e"
    using t by (simp add: long_title_def)
  ultimately show ?thesis
    using is_paper_entry_cascade_eq[OF assms] by auto
qed

theorem is_paper_entry_cascade_witness:
  "\<not> is_paper_entry (node ''entry editor toc'' [jane_doe] (Inr ''Proceedings of the Conference''))
   \<and> is_paper_entry (node ''entry inproceedings'' [] (Inl NoSuchElementException))
   \<and> is_paper_entry (node ''entry'' [jane_doe] (Inl NoSuchElementException))
   \<and> is_paper_entry (node ''entry'' [] (Inr ''A Study of X''))
   \<and> \<not> is_paper_entry (node ''entry'' [] (Inr ''Preface''))"
proof -
  let ?a = "node ''entry editor toc'' [jane_doe] (Inr ''Proceedings of the Conference'')"
  let ?b = "node ''entry inproceedings'' [] (Inl NoSuchElementException)"
  let ?c = "node ''entry'' [jane_doe] (Inl NoSuchElementException)"
  let ?d = "node ''entry'' [] (Inr ''A Study of X'')"
  let ?e = "node ''entry'' [] (Inr ''Preface'')"
  have cls: "\<And>c f t. class_attribute (node c f t) = Inr (Some c)"
    by (simp add: node_def)
  have a: "editorial ?a"
    by code_simp
  have b: "\<not> editorial ?b \<and> publication_type ?b"
    by code_simp
  have c: "\<not> editorial ?c \<and> \<not> publication_type ?c \<and> has_author ?c"
    by code_simp
  have d: "\<not> editorial ?d \<and> \<not> publication_type ?d \<and> author_elements ?d = Inr []
           \<and> span_title ?d = Inr ''A Study of X''"
    by code_simp
  have e: "\<not> editorial ?e \<and> \<not> publication_type ?e \<and> \<not> has_author ?e \<and> \<not> long_title ?e"
    by code_simp
  from a is_paper_entry_cascade[OF cls, of "''entry editor toc''"] have "\<not> is_paper_entry ?a"
    by blast
  moreover from b is_paper_entry_cascade[OF cls, of "''entry inproceedings''"]
  have "is_paper_entry ?b"
    by blast
  moreover from c is_paper_entry_cascade[OF cls, of "''entry''" "[jane_doe]"]
  have "is_paper_entry ?c"
    by blast
  moreover from d is_paper_entry_cascade[OF cls, of "''entry''" "[]" "Inr ''A Study of X''"]
  have "is_paper_entry ?d"
    by blast
  moreover from e is_paper_entry_cascade[OF cls, of "''entry''" "[]" "Inr ''Preface''"]
  have "\<not> is_paper_entry ?e"
    by blast
  ultimately show ?thesis
    by simp
qed

section \<open>Deduplication of records\<close>

lemma first_occurrences_set: "set (first_occurrences key xs) \<subseteq> set xs"
  by (induction key xs rule: first_occurrences.induct) auto

lemma first_occurrences_keys: "key ` set (first_occurrences key xs) = key ` set xs"
proof (induction key xs rule: first_occurrences.induct)
  case (1 key)
  show ?case by simp
next
  case (2 key x xs)
  have "key ` set (x # xs) = insert (key x) (key ` set (filter (\<lambda>y. key y \<noteq> key x) xs))"
    by auto
  with 2 show ?case by simp
qed

lemma first_occurrences_distinct: "distinct (map key (first_occurrences key xs))"
proof (induction key xs rule: first_occurrences.induct)
  case (1 key)
  show ?case by simp
next
  case (2 key x xs)
  have "key x \<notin> key ` set (first_occurrences key (filter (\<lambda>y. key y \<noteq> key x) xs))"
    unfolding first_occurrences_keys by auto
  with 2 show ?case by simp
qed

lemma first_occurrences_subseq: "subseq (first_occurrences key xs) xs"
proof (induction key xs rule: first_occurrences.induct)
  case (1 key)
  show ?case by simp
next
  case (2 key x xs)
  have "subseq (filter (\<lambda>y. key y \<noteq> key x) xs) xs"
    by simp
  with 2 have "subseq (first_occurrences key (filter (\<lambda>y. key y \<noteq> key x) xs)) xs"
    using subseq_order.order_trans by blast
  then show ?case by simp
qed

lemma first_occurrences_fixed:
  "distinct (map key xs) \<Longrightarrow> first_occurrences key xs = xs"
proof (induction xs)
  case Nil
  show ?case by simp
next
  case (Cons x xs)
  from Cons.prems have "key x \<notin> key ` set xs"
    by simp
  then have "\<forall>y \<in> set xs. key y \<noteq> key x"
    by (metis imageI)
  then have "filter (\<lambda>y. key y \<noteq> key x) xs = xs"
    by (simp add: filter_id_conv)
  with Cons show ?case by simp
qed

lemma first_occurrences_idem:
  "first_occurrences key (first_occurrences key xs) = first_occurrences key xs"
  by (rule first_occurrences_fixed) (rule first_occurrences_distinct)

lemma first_occurrences_first:
  "x \<in> set (first_occurrences key xs) \<Longrightarrow> find (\<lambda>y. key y = key x) xs = Some x"
proof (induction key xs rule: first_occurrences.induct)
  case (1 key)
  then show ?case by simp
next
  case (2 key y ys)
  show ?case
  proof (cases "x = y")
    case True
    then show ?thesis by simp
  next
    case False
    with 2(2) have m: "x \<in> set (first_occurrences key (filter (\<lambda>z. key z \<noteq> key y) ys))"
      by simp
    then have "x \<in> set (filter (\<lambda>z. key z \<noteq> key y) ys)"
      using first_occurrences_set by fastforce
    then have ne: "key x \<noteq> key y" by simp
    from 2(1)[OF m] have f: "find (\<lambda>z. key z = key x) (filter (\<lambda>z. key z \<noteq> key y) ys) = Some x" .
    have "find (\<lambda>z. key z = key x) (filter (\<lambda>z. key z \<noteq> key y) ys) = find (\<lambda>z. key z = key x) ys"
      using ne by (induction ys) auto
    with f ne show ?thesis by auto
  qed
qed

lemma dedup_loop_eq:
  "dedup_loop ps seen acc =
     acc @ first_occurrences paper_key (filter (\<lambda>p. paper_key p \<notin> seen \<and> named p) ps)"
proof (induction ps arbitrary: seen acc)
  case Nil
  show ?case by simp
next
  case (Cons p ps)
  show ?case
  proof (cases "paper_key p \<notin> seen \<and> named p")
    case True
    have "filter (\<lambda>q. paper_key q \<noteq> paper_key p)
            (filter (\<lambda>q. paper_key q \<notin> seen \<and> named q) ps)
          = filter (\<lambda>q. paper_key q \<notin> insert (paper_key p) seen \<and> named q) ps"
      unfolding filter_filter by (rule filter_cong) auto
    with True show ?thesis
      by (simp add: Cons.IH del: filter_filter) (simp add: named_def)
  next
    case False
    then show ?thesis
      by (auto simp add: Cons.IH named_def)
  qed
qed

lemma remove_duplicates_eq:
  "remove_duplicates ps = first_occurrences paper_key (filter named ps)"
  by (simp add: remove_duplicates_def dedup_loop_eq)

lemma remove_duplicates_named: "\<forall>p \<in> set (remove_duplicates ps). named p"
  unfolding remove_duplicates_eq using first_occurrences_set by fastforce

lemma remove_duplicates_idem: "remove_duplicates (remove_duplicates ps) = remove_duplicates ps"
proof -
  have "filter named (remove_duplicates ps) = remove_duplicates ps"
    using remove_duplicates_named by (simp add: filter_id_conv)
  then have "remove_duplicates (remove_duplicates ps) = first_occurrences paper_key (remove_duplicates ps)"
    by (simp add: remove_duplicates_eq[of "remove_duplicates ps"])
  then show ?thesis
    by (simp add: remove_duplicates_eq[of ps] first_occurrences_idem)
qed

lemma insert_conf_paper_name: "insert_conf_paper now p table = (q, table') \<Longrightarrow> name q = name p \<and> authors q = authors p"
  by (auto simp: insert_conf_paper_def Let_def split: if_splits)

lemma process_elements_named:
  "\<forall>p \<in> set papers. named p \<Longrightarrow>
   \<forall>p \<in> set (fst (process_elements now conf url es (papers, table))). named p"
proof (induction es arbitrary: papers table)
  case Nil
  then show ?case by simp
next
  case (Cons e es)
  show ?case
  proof (cases "is_paper_entry e \<and> (\<exists>pd. extract_paper_data e conf url = Some pd \<and> strip (name pd) \<noteq> [])")
    case True
    then obtain pd where pd: "extract_paper_data e conf url = Some pd" "strip (name pd) \<noteq> []" by blast
    obtain q t' where q: "insert_conf_paper now pd table = (q, t')" by (cases "insert_conf_paper now pd table")
    then have "named q" using pd(2) insert_conf_paper_name[OF q] by (simp add: named_def)
    with Cons.prems have "\<forall>p \<in> set (papers @ [q]). named p" by simp
    from Cons.IH[OF this] show ?thesis using True pd q by simp
  next
    case False
    then show ?thesis using Cons.IH[OF Cons.prems] by (auto split: option.splits)
  qed
qed

lemma scrape_result:
  "fst (scrape_papers_from_content_page now (Some pg) url conf table)
     = remove_duplicates (fst (process_elements now conf url (paper_elements_of pg) ([], table)))"
  by (simp add: scrape_papers_from_content_page_def split: prod.splits)

text \<open>
  C6: the key of the record-level deduplication is the pair of the lower-cased, trimmed
  title and the lower-cased, trimmed author string. The pass is idempotent; its output
  has pairwise different keys and is a subsequence of its input; on records whose names
  are not blank (all the records the extraction loop collects are such) it keeps exactly
  the first occurrence of each key, in first-seen order: every key of the input survives,
  and the survivor is the first input record with that key. Of two records that agree in
  both components of the key only the first survives, whatever their other fields; two
  records that differ in the title component or in the author component are both kept.
  The list that \<open>scrape_papers_from_content_page\<close> returns is the first occurrences of the
  collected records.
\<close>

theorem remove_duplicates_first_occurrences:
  "paper_key p = (strip (lower (name p)), strip (lower (authors p)))
   \<and> remove_duplicates (remove_duplicates ps) = remove_duplicates ps
   \<and> distinct (map paper_key (remove_duplicates ps))
   \<and> subseq (remove_duplicates ps) ps
   \<and> ((\<forall>p \<in> set ps. named p) \<longrightarrow>
         remove_duplicates ps = first_occurrences paper_key ps
         \<and> paper_key ` set (remove_duplicates ps) = paper_key ` set ps
         \<and> (\<forall>p \<in> set (remove_duplicates ps).
               find (\<lambda>q. paper_key q = paper_key p) ps = Some p))
   \<and> (named p \<and> strip (lower (name q)) = strip (lower (name p))
        \<and> strip (lower (authors q)) = strip (lower (authors p))
      \<longrightarrow> remove_duplicates [p, q] = [p])
   \<and> (named p \<and> named q
        \<and> (strip (lower (name q)) \<noteq> strip (lower (name p))
           \<or> strip (lower (authors q)) \<noteq> strip (lower (authors p)))
      \<longrightarrow> remove_duplicates [p, q] = [p, q])
   \<and> fst (scrape_papers_from_content_page now (Some pg) url conf table)
        = first_occurrences paper_key
            (fst (process_elements now conf url (paper_elements_of pg) ([], table)))"
proof (intro conjI impI)
  show "paper_key p = (strip (lower (name p)), strip (lower (authors p)))"
    by (simp add: paper_key_def)
  show "remove_duplicates (remove_duplicates ps) = remove_duplicates ps"
    by (rule remove_duplicates_idem)
  show "distinct (map paper_key (remove_duplicates ps))"
    unfolding remove_duplicates_eq by (rule first_occurrences_distinct)
  have "subseq (first_occurrences paper_key (filter named ps)) (filter named ps)"
    by (rule first_occurrences_subseq)
  moreover have "subseq (filter named ps) ps"
    by simp
  ultimately show "subseq (remove_duplicates ps) ps"
    unfolding remove_duplicates_eq using subseq_order.order_trans by blast
next
  assume all: "\<forall>p \<in> set ps. named p"
  then have f: "filter named ps = ps"
    by (simp add: filter_id_conv)
  show eq: "remove_duplicates ps = first_occurrences paper_key ps"
    by (simp add: remove_duplicates_eq f)
  show "paper_key ` set (remove_duplicates ps) = paper_key ` set ps"
    unfolding eq by (rule first_occurrences_keys)
  show "\<forall>p \<in> set (remove_duplicates ps). find (\<lambda>q. paper_key q = paper_key p) ps = Some p"
    unfolding eq using first_occurrences_first by fastforce
next
  assume "named p \<and> strip (lower (name q)) = strip (lower (name p))
        \<and> strip (lower (authors q)) = strip (lower (authors p))"
  then show "remove_duplicates [p, q] = [p]"
    by (simp add: remove_duplicates_eq paper_key_def)
next
  assume "named p \<and> named q
        \<and> (strip (lower (name q)) \<noteq> strip (lower (name p))
           \<or> strip (lower (authors q)) \<noteq> strip (lower (authors p)))"
  then show "remove_duplicates [p, q] = [p, q]"
    by (auto simp add: remove_duplicates_eq paper_key_def)
next
  have "\<forall>p \<in> set (fst (process_elements now conf url (paper_elements_of pg) ([], table))). named p"
    by (rule process_elements_named) simp
  then have "filter named (fst (process_elements now conf url (paper_elements_of pg) ([], table)))
               = fst (process_elements now conf url (paper_elements_of pg) ([], table))"
    by (simp add: filter_id_conv)
  then show "fst (scrape_papers_from_content_page now (Some pg) url conf table)
        = first_occurrences paper_key
            (fst (process_elements now conf url (paper_elements_of pg) ([], table)))"
    by (simp add: scrape_result remove_duplicates_eq)
qed

theorem remove_duplicates_first_occurrences_witness:
  "list_all named
     [record_of ''A Study of X'' ''Jane Doe'' ''https://dblp.org/db/conf/x/x2020.html'',
      record_of '' a study of X '' ''  JANE DOE '' ''https://dblp.org/db/conf/x/x2021.html'',
      record_of ''A Study of X'' ''John Roe'' ''https://dblp.org/db/conf/x/x2020.html'',
      record_of ''Another Study'' ''Jane Doe'' ''https://dblp.org/db/conf/x/x2020.html'']
   \<and> strip (lower '' a study of X '') = strip (lower ''A Study of X'')
   \<and> strip (lower ''  JANE DOE '') = strip (lower ''Jane Doe'')
   \<and> remove_duplicates
        [record_of ''A Study of X'' ''Jane Doe'' ''https://dblp.org/db/conf/x/x2020.html'',
         record_of '' a study of X '' ''  JANE DOE '' ''https://dblp.org/db/conf/x/x2021.html'',
         record_of ''A Study of X'' ''John Roe'' ''https://dblp.org/db/conf/x/x2020.html'',
         record_of ''Another Study'' ''Jane Doe'' ''https://dblp.org/db/conf/x/x2020.html'']
       = [record_of ''A Study of X'' ''Jane Doe'' ''https://dblp.org/db/conf/x/x2020.html'',
          record_of ''A Study of X'' ''John Roe'' ''https://dblp.org/db/conf/x/x2020.html'',
          record_of ''Another Study'' ''Jane Doe'' ''https://dblp.org/db/conf/x/x2020.html'']
   \<and> remove_duplicates
        [record_of ''A Study of X'' ''Jane Doe'' ''https://dblp.org/db/conf/x/x2020.html'',
         record_of '' a study of X '' ''  JANE DOE '' ''https://dblp.org/db/conf/x/x2021.html'']
       = [record_of ''A Study of X'' ''Jane Doe'' ''https://dblp.org/db/conf/x/x2020.html'']
   \<and> remove_duplicates
        [record_of ''A Study of X'' ''Jane Doe'' ''https://dblp.org/db/conf/x/x2020.html'',
         record_of ''A Study of X'' ''John Roe'' ''https://dblp.org/db/conf/x/x2020.html'']
       = [record_of ''A Study of X'' ''Jane Doe'' ''https://dblp.org/db/conf/x/x2020.html'',
          record_of ''A Study of X'' ''John Roe'' ''https://dblp.org/db/conf/x/x2020.html'']
   \<and> remove_duplicates
        [record_of ''A Study of X'' ''Jane Doe'' ''https://dblp.org/db/conf/x/x2020.html'',
         record_of ''Another Study'' ''Jane Doe'' ''https://dblp.org/db/conf/x/x2020.html'']
       = [record_of ''A Study of X'' ''Jane Doe'' ''https://dblp.org/db/conf/x/x2020.html'',
          record_of ''Another Study'' ''Jane Doe'' ''https://dblp.org/db/conf/x/x2020.html'']"
proof -
  let ?p = "record_of ''A Study of X'' ''Jane Doe'' ''https://dblp.org/db/conf/x/x2020.html''"
  let ?q = "record_of '' a study of X '' ''  JANE DOE '' ''https://dblp.org/db/conf/x/x2021.html''"
  let ?o = "record_of ''A Study of X'' ''John Roe'' ''https://dblp.org/db/conf/x/x2020.html''"
  let ?r = "record_of ''Another Study'' ''Jane Doe'' ''https://dblp.org/db/conf/x/x2020.html''"
  have n: "named ?p" "named ?q" "named ?o" "named ?r"
    by code_simp+
  then have all: "\<forall>x \<in> set [?p, ?q, ?o, ?r]. named x"
    by simp
  have t: "strip (lower '' a study of X '') = strip (lower ''A Study of X'')"
    by code_simp
  have u: "strip (lower ''  JANE DOE '') = strip (lower ''Jane Doe'')"
    by code_simp
  have v: "strip (lower ''John Roe'') \<noteq> strip (lower ''Jane Doe'')"
    by code_simp
  have w: "strip (lower ''Another Study'') \<noteq> strip (lower ''A Study of X'')"
    by code_simp
  have f: "name ?p = ''A Study of X''" "authors ?p = ''Jane Doe''"
      "name ?q = '' a study of X ''" "authors ?q = ''  JANE DOE ''"
      "name ?o = ''A Study of X''" "authors ?o = ''John Roe''"
      "name ?r = ''Another Study''" "authors ?r = ''Jane Doe''"
    by (simp_all add: record_of_def)
  note key = remove_duplicates_first_occurrences[THEN conjunct1]
  have kq: "paper_key ?q = paper_key ?p"
    using key[of ?q] key[of ?p] t u f by simp
  have ko: "paper_key ?o \<noteq> paper_key ?p"
    using key[of ?o] key[of ?p] v f by simp
  have kr: "paper_key ?r \<noteq> paper_key ?p" "paper_key ?r \<noteq> paper_key ?o"
    using key[of ?r] key[of ?p] key[of ?o] w f by simp_all
  from remove_duplicates_first_occurrences[of ?p "[?p, ?q, ?o, ?r]"] all
  have "remove_duplicates [?p, ?q, ?o, ?r] = first_occurrences paper_key [?p, ?q, ?o, ?r]"
    by blast
  then have four: "remove_duplicates [?p, ?q, ?o, ?r] = [?p, ?o, ?r]"
    using kq ko kr by simp
  from remove_duplicates_first_occurrences[of ?p _ ?q] n(1) t u f
  have same: "remove_duplicates [?p, ?q] = [?p]"
    by simp
  from remove_duplicates_first_occurrences[of ?p _ ?o] n(1,3) v f
  have other_author: "remove_duplicates [?p, ?o] = [?p, ?o]"
    by simp
  from remove_duplicates_first_occurrences[of ?p _ ?r] n(1,4) w f
  have other_title: "remove_duplicates [?p, ?r] = [?p, ?r]"
    by simp
  from n t u four same other_author other_title show ?thesis
    by simp
qed

text \<open>
  C7 says that no two records with the same key are handed to the persistence sink in
  one batch. The code hands every accepted record to \<open>insert_conf_paper\<close> inside the
  extraction loop, before the deduplication: on a page that lists the same paper twice,
  the table receives both rows, while the returned list holds one.
\<close>

theorem scrape_inserts_before_deduplication:
  "map paper_key
     (snd (scrape_papers_from_content_page fixed_clock (Some twice_listed)
             ''https://dblp.org/db/conf/x/x2020.html'' ''X'' []))
     = [(''a study of x'', ''jane doe''), (''a study of x'', ''jane doe'')]
   \<and> map paper_key
       (fst (scrape_papers_from_content_page fixed_clock (Some twice_listed)
               ''https://dblp.org/db/conf/x/x2020.html'' ''X'' []))
     = [(''a study of x'', ''jane doe'')]"
  by code_simp

section \<open>Years and volumes of journal records\<close>

lemma hyphen_not_word: "\<not> is_word (CHR ''-'')"
  by code_simp

text \<open>Where the range pattern matches, the exact pattern matches too: the hyphen after
  the first year is a word boundary.\<close>

lemma range_starts_with_year:
  "year_range_match_at prev s = Some r \<Longrightarrow> \<exists>y. year_match_at prev s = Some y"
  by (cases "(prev, s)" rule: year_range_match_at.cases)
     (auto simp: hyphen_not_word split: if_splits)

lemma re_search_none:
  assumes "\<And>prev s. m1 prev s = None \<Longrightarrow> m2 prev s = None"
  shows "re_search m1 prev s = None \<Longrightarrow> re_search m2 prev s = None"
proof (induction s arbitrary: prev)
  case Nil
  then show ?case
    using assms by simp
next
  case (Cons c cs)
  then show ?case
    using assms by (auto split: option.splits)
qed

lemma range_never_alone: "year_match volume_text = None \<Longrightarrow> year_range_match volume_text = None"
  unfolding year_match_def year_range_match_def
proof (rule re_search_none)
  fix prev s
  assume "year_match_at prev s = None"
  then show "year_range_match_at prev s = None"
    using range_starts_with_year by (cases "year_range_match_at prev s") fastforce+
qed

lemma extract_volume_info_year:
  "extract_volume_info volume_text ''year''
     = Some (case year_match volume_text of Some y \<Rightarrow> y | None \<Rightarrow> [])"
  using range_never_alone[of volume_text]
  by (auto simp: extract_volume_info_def Let_def split: option.splits)

lemma re_search_skip:
  "no_match_before m prev pre rest \<Longrightarrow>
   re_search m prev (pre @ rest) = re_search m (if pre = [] then prev else Some (last pre)) rest"
  by (induction pre arbitrary: prev) auto

lemma year_at_2017:
  "boundary_before prev \<Longrightarrow> re_search year_match_at prev (''2017-2019'' @ post) = Some ''2017''"
  by (simp add: century_def is_digit_def code_point_def hyphen_not_word)

lemma year_match_2017:
  assumes "no_match_before year_match_at None pre (''2017-2019'' @ post)"
    and "boundary_before (char_before pre)"
  shows "year_match (pre @ ''2017-2019'' @ post) = Some ''2017''"
  unfolding year_match_def re_search_skip[OF assms(1)]
  using assms(2) unfolding char_before_def by (rule year_at_2017)

text \<open>
  C8, as stated: a text with \<open>2017-2019\<close> and no other 4-digit token gets the year
  \<open>2017\<close> from the range-parsing path. This fails: the exact pattern already matches
  \<open>2017\<close> there, so the range-parsing path yields nothing.
\<close>

theorem year_from_range_path_counterexample:
  "year_from_range_path ''Volume 12: 2017-2019'' \<noteq> Some ''2017''"
  by code_simp

text \<open>
  C8, amended: \<open>extract_volume_info\<close> takes the year from the first exact 4-digit match
  (19xx or 20xx between word boundaries) and gives the empty year when there is none;
  the range pattern is tried only when there is no exact match, and then it never
  matches, so the range-parsing path yields no year on any text. A text in which
  \<open>2017-2019\<close> begins at a word boundary (at the start of the text or after a character
  that is not a word character) and in which no exact match begins earlier gets the year
  \<open>2017\<close>, from the exact match, whatever follows. Without the word boundary it does
  not: \<open>ab2017-2019\<close> gets \<open>2019\<close> and \<open>x2017-2019y\<close> gets the empty year.
\<close>

theorem extract_volume_info_year_exact:
  "extract_volume_info volume_text ''year''
     = Some (case year_match volume_text of Some y \<Rightarrow> y | None \<Rightarrow> [])
   \<and> year_from_range_path volume_text = None
   \<and> (no_match_before year_match_at None pre (''2017-2019'' @ post)
        \<and> boundary_before (char_before pre)
      \<longrightarrow> year_match (pre @ ''2017-2019'' @ post) = Some ''2017''
          \<and> extract_volume_info (pre @ ''2017-2019'' @ post) ''year'' = Some ''2017'')
   \<and> extract_volume_info ''Volume 12: 2017-2019'' ''year'' = Some ''2017''
   \<and> extract_volume_info ''presented in 1999 at'' ''year'' = Some ''1999''
   \<and> extract_volume_info ''ab2017-2019'' ''year'' = Some ''2019''
   \<and> extract_volume_info ''x2017-2019y'' ''year'' = Some []"
proof (intro conjI impI)
  show "extract_volume_info volume_text ''year''
     = Some (case year_match volume_text of Some y \<Rightarrow> y | None \<Rightarrow> [])"
    by (rule extract_volume_info_year)
  show "year_from_range_path volume_text = None"
    using range_never_alone by (auto simp: year_from_range_path_def split: option.splits)
next
  assume h: "no_match_before year_match_at None pre (''2017-2019'' @ post)
        \<and> boundary_before (char_before pre)"
  then show m: "year_match (pre @ ''2017-2019'' @ post) = Some ''2017''"
    using year_match_2017 by blast
  then show "extract_volume_info (pre @ ''2017-2019'' @ post) ''year'' = Some ''2017''"
    by (simp add: extract_volume_info_year)
next
  show "extract_volume_info ''Volume 12: 2017-2019'' ''year'' = Some ''2017''"
    by code_simp
  show "extract_volume_info ''presented in 1999 at'' ''year'' = Some ''1999''"
    by code_simp
  show "extract_volume_info ''ab2017-2019'' ''year'' = Some ''2019''"
    by code_simp
  show "extract_volume_info ''x2017-2019y'' ''year'' = Some []"
    by code_simp
qed

theorem extract_volume_info_year_exact_witness:
  "no_match_before year_match_at None ''Volumes 10-12: '' (''2017-2019'' @ '' (special issues)'')
   \<and> boundary_before (char_before ''Volumes 10-12: '')
   \<and> extract_volume_info ''Volumes 10-12: 2017-2019 (special issues)'' ''year'' = Some ''2017''
   \<and> extract_volume_info ''Volume 5'' ''year'' = Some []"
proof -
  have a: "no_match_before year_match_at None ''Volumes 10-12: '' (''2017-2019'' @ '' (special issues)'')"
    by code_simp
  have b: "boundary_before (char_before ''Volumes 10-12: '')"
    by code_simp
  have c: "year_match ''Volume 5'' = None"
    by code_simp
  from a b extract_volume_info_year_exact[of _ "''Volumes 10-12: ''" "'' (special issues)''"]
  have "extract_volume_info (''Volumes 10-12: '' @ ''2017-2019'' @ '' (special issues)'') ''year''
          = Some ''2017''"
    by blast
  then have d: "extract_volume_info ''Volumes 10-12: 2017-2019 (special issues)'' ''year'' = Some ''2017''"
    by simp
  from c extract_volume_info_year_exact[of "''Volume 5''"]
  have "extract_volume_info ''Volume 5'' ''year'' = Some []"
    by simp
  with a b d show ?thesis
    by simp
qed

text \<open>The dictionary of \<open>extract_volume_info\<close> always has both keys, so a record scraped
  under it never has its year or volume parsed from its own text.\<close>

lemma journal_paper_under_volume_info:
  "journal_paper_year (Some (extract_volume_info volume_text)) paper_text
     = (case year_match volume_text of Some y \<Rightarrow> y | None \<Rightarrow> [])"
  by (simp add: journal_paper_year_def extract_volume_info_year)

text \<open>
  C9 says that year and volume are parsed from the record's own text when the volume
  context does not supply them. \<open>scrape_journal\<close> passes the dictionary of
  \<open>extract_volume_info\<close>, which holds the empty string under \<open>year\<close> (or \<open>volume\<close>) when
  the volume link's text has none; \<open>extract_journal_paper_info\<close> tests only that the key
  is there, and takes the empty string: the year and the volume in the record's text are
  not read, though they are when no dictionary is passed.
\<close>

theorem journal_paper_empty_year_inherited:
  "extract_volume_info ''Volume 5'' ''year'' = Some []
   \<and> journal_paper_year (Some (extract_volume_info ''Volume 5''))
        ''A Study of X. J. Examples 5(1): 1-10 (2019)'' = []
   \<and> journal_paper_year None ''A Study of X. J. Examples 5(1): 1-10 (2019)'' = ''2019''
   \<and> extract_volume_info ''2019'' ''volume'' = Some []
   \<and> journal_paper_volume (Some (extract_volume_info ''2019''))
        ''A Study of X. J. Examples, Vol. 7, 1-10 (2019)'' = []
   \<and> journal_paper_volume None ''A Study of X. J. Examples, Vol. 7, 1-10 (2019)'' = ''7''"
  by code_simp

section \<open>Affiliation keywords\<close>















section \<open>Country resolver\<close>




























end
